theory Spec2Isabelle
  imports Complex_Main "HOL-Library.Char_ord" "HOL-Library.List_Lexorder" "HOL-Library.Extended_Nat"
begin

section \<open>The RFM segmentation of dashboard.py\<close>

text \<open>
  The development embeds \<^verbatim>\<open>perform_rfm_analysis\<close> of \<^verbatim>\<open>dashboard.py\<close> (lines 116 to 168)
  and the pandas operations it calls, as pandas 2 defines them. It has two parts.

  In the first part the function is a map from the input table to the table it returns or
  the exception it raises. A DataFrame is a list of rows, a row is a record of the columns
  the function reads or writes, and a Series is the list of one column's values. An
  exception is a value of type \<open>error\<close>, returned as \<open>Inl\<close>.

  In the second part the DataFrames are objects in a store, and the statements of the
  function create and update them; it is there to state what a call does to the objects
  that exist around it. Both parts compute the same table.

  Numbers: a day count and a frequency are integers; an amount (\<^verbatim>\<open>total_spent\<close>, the bin
  edges of \<^verbatim>\<open>qcut\<close>) is a rational number, so the rounding of binary floating point is not
  part of the model. A missing value (\<^verbatim>\<open>NaN\<close>, \<^verbatim>\<open>NaT\<close>) is \<open>None\<close>.
\<close>

subsection \<open>Tables\<close>

text \<open>
  The input rows. \<^verbatim>\<open>order_purchase_timestamp\<close> is a \<^verbatim>\<open>datetime64[ns]\<close> value, the
  nanoseconds since the epoch; the rows that reach \<^verbatim>\<open>perform_rfm_analysis\<close> have passed the
  date filter of line 209, which no \<^verbatim>\<open>NaT\<close> passes, so the column holds no missing value.
  \<^verbatim>\<open>total_spent\<close> is the column that \<^verbatim>\<open>preprocess_data\<close> adds.
\<close>

record customer_key =
  customer_id :: string

record order = customer_key +
  order_id :: string
  order_purchase_timestamp :: int
  total_spent :: rat

text \<open>The merged table \<^verbatim>\<open>rfm_df\<close> of line 138, and the columns lines 141 to 166 add to it.\<close>

record rfm_row = customer_key +
  Recency :: "int option"
  Frequency :: nat
  Monetary :: rat

record scored_row = rfm_row +
  R_Score :: "int option"
  F_Score :: "int option"
  M_Score :: "int option"
  RFM_Score :: int

record segmented_row = scored_row +
  Segment :: string

subsection \<open>Exceptions\<close>

text \<open>
  The exceptions of the modelled calls, each with its message: the \<^verbatim>\<open>ValueError\<close> of the
  binning and of the conversion to integers, and the \<^verbatim>\<open>KeyError\<close> of a column that a
  DataFrame does not have.
\<close>

datatype error = ValueError string | KeyError string


subsection \<open>The pandas operations the function calls\<close>

text \<open>
  \<^verbatim>\<open>Series.max\<close> of a datetime column: the greatest value, \<^verbatim>\<open>NaT\<close> for an empty column.
  The difference of two timestamps is a \<^verbatim>\<open>Timedelta\<close> in nanoseconds (\<^verbatim>\<open>NaT\<close> when
  either is), and \<^verbatim>\<open>.days\<close> is its whole number of days, rounded down (\<^verbatim>\<open>NaN\<close> for \<^verbatim>\<open>NaT\<close>).
\<close>

type_synonym timestamp = "int option"
type_synonym timedelta = "int option"

definition Series_max :: "int list \<Rightarrow> timestamp" where
  "Series_max x = (case x of [] \<Rightarrow> None | v # vs \<Rightarrow> Some (fold max vs v))"

definition timestamp_sub :: "timestamp \<Rightarrow> timestamp \<Rightarrow> timedelta" where
  "timestamp_sub a b = (case a of None \<Rightarrow> None | Some s \<Rightarrow> (case b of None \<Rightarrow> None | Some t \<Rightarrow> Some (s - t)))"

definition days :: "timedelta \<Rightarrow> int option" where
  "days d = map_option (\<lambda>ns. ns div 86400000000000) d"

text \<open>
  \<^verbatim>\<open>df.groupby(key).agg({col: f}).reset_index()\<close>: one row for every distinct key, in
  ascending order of the key, holding the key and \<open>f\<close> of the group's values of \<open>col\<close> in
  the order of the rows.
\<close>

definition groupby_agg :: "('r \<Rightarrow> string) \<Rightarrow> ('r \<Rightarrow> 'c) \<Rightarrow> ('c list \<Rightarrow> 'v) \<Rightarrow> 'r list \<Rightarrow> (string \<times> 'v) list" where
  "groupby_agg key col f df =
     map (\<lambda>k. (k, f (map col (filter (\<lambda>r. key r = k) df)))) (sort (remdups (map key df)))"

text \<open>The aggregation \<^verbatim>\<open>'nunique'\<close>: the number of distinct values of the group.\<close>

definition nunique :: "'c list \<Rightarrow> nat" where
  "nunique x = length (remdups x)"

text \<open>
  \<^verbatim>\<open>pd.merge(left, right, on=key)\<close>, an inner join: for every row of \<open>left\<close>, in order,
  one row for every row of \<open>right\<close> with the same key.
\<close>

definition merge :: "(string \<times> 'a) list \<Rightarrow> (string \<times> 'b) list \<Rightarrow> (string \<times> 'a \<times> 'b) list" where
  "merge left right = concat (map (\<lambda>(k, a). map (\<lambda>(k', b). (k, a, b)) (filter (\<lambda>(k', b). k' = k) right)) left)"

text \<open>
  \<^verbatim>\<open>Series.quantile\<close> with linear interpolation, at \<open>0 \<le> q \<le> 1\<close>: the value at position
  \<open>q * (n - 1)\<close> of the sorted values, interpolated between its two neighbours;
  \<^verbatim>\<open>NaN\<close> for an empty series.
\<close>

definition dropna :: "'a option list \<Rightarrow> 'a list" where
  "dropna x = concat (map (\<lambda>v. case v of None \<Rightarrow> [] | Some a \<Rightarrow> [a]) x)"

definition quantile :: "rat list \<Rightarrow> rat \<Rightarrow> rat option" where
  "quantile x q =
     (if x = [] then None
      else let s = sort x;
               h = of_nat (length s - 1) * q;
               lo = nat \<lfloor>h\<rfloor>;
               hi = min (lo + 1) (length s - 1)
           in Some (s ! lo + (h - of_nat lo) * (s ! hi - s ! lo)))"

text \<open>\<^verbatim>\<open>np.linspace(0, 1, q + 1)\<close>.\<close>

definition linspace01 :: "nat \<Rightarrow> rat list" where
  "linspace01 q = map (\<lambda>i. of_nat i / of_nat q) [0..<q + 1]"

text \<open>\<^verbatim>\<open>algos.unique\<close>: the distinct values in the order of their first occurrence.\<close>

definition unique :: "'a list \<Rightarrow> 'a list" where
  "unique a = rev (remdups (rev a))"

text \<open>
  \<^verbatim>\<open>searchsorted(v, side='left')\<close>: the index of the first edge that is not below \<open>v\<close>,
  where \<^verbatim>\<open>NaN\<close> stands after every number.
\<close>

definition nan_less :: "'a::linorder option \<Rightarrow> 'a option \<Rightarrow> bool" where
  "nan_less a b = (case a of None \<Rightarrow> False | Some x \<Rightarrow> (case b of None \<Rightarrow> True | Some y \<Rightarrow> x < y))"

definition searchsorted :: "'a::linorder option list \<Rightarrow> 'a option \<Rightarrow> nat" where
  "searchsorted a v = length (takeWhile (\<lambda>b. nan_less b v) a)"

text \<open>
  \<^verbatim>\<open>_bins_to_cuts\<close> of \<^verbatim>\<open>pandas/core/reshape/tile.py\<close>, with \<^verbatim>\<open>right=True\<close>,
  \<^verbatim>\<open>ordered=True\<close> and a list of labels, as both callers have it. It works on whole
  columns; \<open>label_of_bin\<close> is what it does to one value: \<open>i\<close> is the value's entry of
  \<^verbatim>\<open>ids\<close> (its position among the edges, or 1 for the lowest edge when
  \<open>include_lowest\<close>), \<open>na\<close> its entry of \<^verbatim>\<open>na_mask\<close> (the value is missing or outside
  every bin), and the result is the label taken at \<open>i - 1\<close>, \<^verbatim>\<open>NaN\<close> where masked.
\<close>

definition label_of_bin :: "'a::linorder option list \<Rightarrow> int list \<Rightarrow> bool \<Rightarrow> 'a option \<Rightarrow> int option" where
  "label_of_bin bins labels include_lowest v =
     (let i = (if include_lowest \<and> v \<noteq> None \<and> [v] = take 1 bins then 1 else searchsorted bins v);
          na = (v = None \<or> i = length bins \<or> i = 0)
      in if na then None else Some (labels ! (i - 1)))"

text \<open>
  Duplicate edges are dropped or refused (two edges are left alone); the labels must be
  distinct, and one fewer than the edges that remain.
\<close>

datatype duplicates = Raise | Drop

definition bins_to_cuts ::
  "'a::linorder option list \<Rightarrow> 'a option list \<Rightarrow> int list \<Rightarrow> bool \<Rightarrow> duplicates \<Rightarrow> error + int option list" where
  "bins_to_cuts x_idx bins labels include_lowest dup =
     (let unique_bins = unique bins;
          dropped = (length unique_bins < length bins \<and> length bins \<noteq> 2)
      in if dropped \<and> dup = Raise then Inl (ValueError ''Bin edges must be unique'')
         else
           let bins = (if dropped then unique_bins else bins)
           in if \<not> distinct labels
              then Inl (ValueError ''labels must be unique if ordered=True; pass ordered=False for duplicate labels'')
              else if int (length labels) \<noteq> int (length bins) - 1
              then Inl (ValueError ''Bin labels must be one fewer than the number of bin edges'')
              else Inr (map (label_of_bin bins labels include_lowest) x_idx))"

text \<open>
  \<^verbatim>\<open>pd.qcut(x, q, labels, duplicates)\<close>: the edges are the quantiles of the values present
  at the \<open>q + 1\<close> points of \<^verbatim>\<open>np.linspace(0, 1, q + 1)\<close>.
\<close>

definition qcut :: "rat option list \<Rightarrow> nat \<Rightarrow> int list \<Rightarrow> duplicates \<Rightarrow> error + int option list" where
  "qcut x q labels dup =
     (let quantiles = linspace01 q;
          bins = map (quantile (dropna x)) quantiles
      in bins_to_cuts x bins labels True dup)"

text \<open>
  \<^verbatim>\<open>pd.cut(x, bins, labels)\<close> with a list of edges: the edges must not decrease (a
  \<^verbatim>\<open>NaN\<close> edge is refused as well); \<^verbatim>\<open>include_lowest\<close> is false and duplicate edges raise.
\<close>

definition is_monotonic_increasing :: "'a::linorder option list \<Rightarrow> bool" where
  "is_monotonic_increasing a = (list_all (\<lambda>b. b \<noteq> None) a \<and> sorted (dropna a))"

definition cut :: "'a::linorder option list \<Rightarrow> 'a option list \<Rightarrow> int list \<Rightarrow> error + int option list" where
  "cut x bins labels =
     (if \<not> is_monotonic_increasing bins then Inl (ValueError ''bins must increase monotonically.'')
      else bins_to_cuts x bins labels False Raise)"

text \<open>\<^verbatim>\<open>.astype(int)\<close> of a categorical column of integers: a missing value cannot be converted.\<close>

definition astype_int :: "int option list \<Rightarrow> error + int list" where
  "astype_int x =
     (if list_all (\<lambda>v. v \<noteq> None) x then Inr (dropna x)
      else Inl (ValueError ''Cannot convert float NaN to integer''))"

subsection \<open>The segment classifier\<close>

text \<open>Lines 154 to 164: the function applied to every row of the scored table.\<close>

definition segment_customer :: "'a scored_row_scheme \<Rightarrow> string" where
  "segment_customer row =
     (if RFM_Score row \<ge> 12 then ''Champions''
      else if 9 \<le> RFM_Score row \<and> RFM_Score row < 12 then ''Loyal Customers''
      else if 6 \<le> RFM_Score row \<and> RFM_Score row < 9 then ''Potential Loyalists''
      else if 3 \<le> RFM_Score row \<and> RFM_Score row < 6 then ''At Risk''
      else ''Lost Customers'')"

subsection \<open>The pipeline\<close>

text \<open>
  Lines 118 to 138: recency, frequency and monetary value of every customer, each a
  \<^verbatim>\<open>groupby\<close> aggregate of the input, merged on \<^verbatim>\<open>customer_id\<close>.
\<close>

definition rfm_metrics :: "order list \<Rightarrow> rfm_row list" where
  "rfm_metrics df =
     (let latest_date = Series_max (map order_purchase_timestamp df);
          recency_df = groupby_agg customer_id order_purchase_timestamp
                         (\<lambda>x. days (timestamp_sub latest_date (Series_max x))) df;
          frequency_df = groupby_agg customer_id order_id nunique df;
          monetary_df = groupby_agg customer_id total_spent sum_list df;
          rfm_df = merge recency_df frequency_df;
          rfm_df = merge rfm_df monetary_df
      in map (\<lambda>(c, (r, f), m). \<lparr>customer_id = c, Recency = r, Frequency = f, Monetary = m\<rparr>) rfm_df)"

text \<open>
  Lines 141 to 151: the three scores and their sum. The statements run in the order of the
  source, so the first call that raises decides the exception.
\<close>

definition rfm_scores :: "rfm_row list \<Rightarrow> error + scored_row list" where
  "rfm_scores rfm_df =
     (case qcut (map (\<lambda>row. map_option of_int (Recency row)) rfm_df) 5 [5, 4, 3, 2, 1] Drop of
        Inl e \<Rightarrow> Inl e
      | Inr R \<Rightarrow>
     (let bins = [Some 0, Some 1, Some 2, Some 3, Some 4, Some \<infinity>];
          labels = [1, 2, 3, 4, 5]
      in case cut (map (\<lambda>row. Some (enat (Frequency row))) rfm_df) bins labels of
        Inl e \<Rightarrow> Inl e
      | Inr F \<Rightarrow>
     (case qcut (map (\<lambda>row. Some (Monetary row)) rfm_df) 5 [1, 2, 3, 4, 5] Drop of
        Inl e \<Rightarrow> Inl e
      | Inr M \<Rightarrow>
     (case astype_int R of Inl e \<Rightarrow> Inl e | Inr r \<Rightarrow>
     (case astype_int F of Inl e \<Rightarrow> Inl e | Inr f \<Rightarrow>
     (case astype_int M of Inl e \<Rightarrow> Inl e | Inr m \<Rightarrow>
        Inr (map (\<lambda>(row, (R_i, r_i), (F_i, f_i), (M_i, m_i)).
                    \<lparr>customer_id = customer_id row, Recency = Recency row,
                     Frequency = Frequency row, Monetary = Monetary row,
                     R_Score = R_i, F_Score = F_i, M_Score = M_i,
                     RFM_Score = r_i + f_i + m_i\<rparr>)
                 (zip rfm_df (zip (zip R r) (zip (zip F f) (zip M m)))))))))))"

text \<open>Line 166: the segment of every row; lines 116 to 168 as a whole.\<close>

definition apply_segment :: "scored_row \<Rightarrow> segmented_row" where
  "apply_segment row =
     \<lparr>customer_id = customer_id row, Recency = Recency row,
      Frequency = Frequency row, Monetary = Monetary row,
      R_Score = R_Score row, F_Score = F_Score row, M_Score = M_Score row,
      RFM_Score = RFM_Score row, Segment = segment_customer row\<rparr>"

definition perform_rfm_analysis :: "order list \<Rightarrow> error + segmented_row list" where
  "perform_rfm_analysis df =
     (case rfm_scores (rfm_metrics df) of
        Inl e \<Rightarrow> Inl e
      | Inr rfm_df \<Rightarrow> Inr (map apply_segment rfm_df))"

subsection \<open>DataFrame objects\<close>

text \<open>
  A DataFrame is an object: the function receives a reference to its input, creates
  DataFrames of its own and updates some of them in place (\<^verbatim>\<open>rename(..., inplace=True)\<close>,
  \<^verbatim>\<open>rfm_df[...] = ...\<close>). In this part of the model an object is an entry of a store,
  a reference is its index, and a statement is an action on the store that returns a value
  or raises. A call that returns a new DataFrame (\<^verbatim>\<open>reset_index\<close>, \<^verbatim>\<open>pd.merge\<close>) appends
  an entry; an in-place update replaces the entry it is applied to.

  The entries are the tables the function works with: the input, the three aggregates with
  the name of their value column, the first merge, and \<^verbatim>\<open>rfm_df\<close> with the score
  columns it has been given so far.
\<close>

type_synonym addr = nat

record rfm_frame =
  rfm_rows :: "rfm_row list"
  R_Score_column :: "int option list option"
  F_Score_column :: "int option list option"
  M_Score_column :: "int option list option"
  RFM_Score_column :: "int list option"
  Segment_column :: "string list option"

datatype frame =
    Orders "order list"
  | Recency_df string "(string \<times> int option) list"
  | Frequency_df string "(string \<times> nat) list"
  | Monetary_df string "(string \<times> rat) list"
  | Merged_df "(string \<times> int option \<times> nat) list"
  | Rfm_df rfm_frame

type_synonym store = "frame list"

type_synonym 'a action = "store \<Rightarrow> (error + 'a) \<times> store"

text \<open>Returning, raising, running one action after another, and a computation that may raise.\<close>

definition returns :: "'a \<Rightarrow> 'a action" where
  "returns x s = (Inr x, s)"

definition raises :: "error \<Rightarrow> 'a action" where
  "raises e s = (Inl e, s)"

definition and_then :: "'a action \<Rightarrow> ('a \<Rightarrow> 'b action) \<Rightarrow> 'b action" where
  "and_then p k s = (case p s of (Inl e, s') \<Rightarrow> (Inl e, s') | (Inr x, s') \<Rightarrow> k x s')"

definition evaluate :: "error + 'a \<Rightarrow> 'a action" where
  "evaluate r s = (r, s)"

text \<open>A new object, the object behind a reference, and an update in place.\<close>

definition new_frame :: "frame \<Rightarrow> addr action" where
  "new_frame f s = (Inr (length s), s @ [f])"

definition frame_at :: "addr \<Rightarrow> frame option action" where
  "frame_at a s = (Inr (if a < length s then Some (s ! a) else None), s)"

definition update_frame :: "addr \<Rightarrow> (frame \<Rightarrow> frame) \<Rightarrow> unit action" where
  "update_frame a g s = (Inr (), if a < length s then s[a := g (s ! a)] else s)"

text \<open>
  Reading a table through a reference. The table must have the columns that the statement
  names; an entry of another kind lacks them, and pandas raises \<^verbatim>\<open>KeyError\<close> with the
  name of the column.
\<close>

definition read_orders :: "string \<Rightarrow> addr \<Rightarrow> order list action" where
  "read_orders col a =
     and_then (frame_at a) (\<lambda>f. case f of Some (Orders rows) \<Rightarrow> returns rows | _ \<Rightarrow> raises (KeyError col))"

definition read_recency :: "string \<Rightarrow> addr \<Rightarrow> (string \<times> int option) list action" where
  "read_recency col a =
     and_then (frame_at a) (\<lambda>f. case f of Some (Recency_df c rows) \<Rightarrow> returns rows | _ \<Rightarrow> raises (KeyError col))"

definition read_frequency :: "string \<Rightarrow> addr \<Rightarrow> (string \<times> nat) list action" where
  "read_frequency col a =
     and_then (frame_at a) (\<lambda>f. case f of Some (Frequency_df c rows) \<Rightarrow> returns rows | _ \<Rightarrow> raises (KeyError col))"

definition read_monetary :: "string \<Rightarrow> addr \<Rightarrow> (string \<times> rat) list action" where
  "read_monetary col a =
     and_then (frame_at a) (\<lambda>f. case f of Some (Monetary_df c rows) \<Rightarrow> returns rows | _ \<Rightarrow> raises (KeyError col))"

definition read_merged :: "string \<Rightarrow> addr \<Rightarrow> (string \<times> int option \<times> nat) list action" where
  "read_merged col a =
     and_then (frame_at a) (\<lambda>f. case f of Some (Merged_df rows) \<Rightarrow> returns rows | _ \<Rightarrow> raises (KeyError col))"

definition read_rfm :: "string \<Rightarrow> addr \<Rightarrow> rfm_frame action" where
  "read_rfm col a =
     and_then (frame_at a) (\<lambda>f. case f of Some (Rfm_df t) \<Rightarrow> returns t | _ \<Rightarrow> raises (KeyError col))"

text \<open>\<^verbatim>\<open>rfm_df[col]\<close> for a score column: \<^verbatim>\<open>KeyError\<close> while it has not been assigned.\<close>

definition column :: "string \<Rightarrow> 'a option \<Rightarrow> 'a action" where
  "column col c = (case c of None \<Rightarrow> raises (KeyError col) | Some x \<Rightarrow> returns x)"

text \<open>
  \<^verbatim>\<open>rename(columns={old: new})\<close> of an aggregate, and the assignment of a column of
  \<^verbatim>\<open>rfm_df\<close>.
\<close>

fun rename :: "string \<Rightarrow> string \<Rightarrow> frame \<Rightarrow> frame" where
  "rename old new (Recency_df c rows) = Recency_df (if c = old then new else c) rows"
| "rename old new (Frequency_df c rows) = Frequency_df (if c = old then new else c) rows"
| "rename old new (Monetary_df c rows) = Monetary_df (if c = old then new else c) rows"
| "rename old new f = f"

fun set_columns :: "(rfm_frame \<Rightarrow> rfm_frame) \<Rightarrow> frame \<Rightarrow> frame" where
  "set_columns g (Rfm_df t) = Rfm_df (g t)"
| "set_columns g f = f"

text \<open>
  The rows that \<^verbatim>\<open>rfm_df.apply(f, axis=1)\<close> hands to \<open>f\<close>: every row with its scores and
  its total. A missing column is a \<^verbatim>\<open>KeyError\<close> when the row is asked for it.
\<close>

definition scored_rows :: "rfm_frame \<Rightarrow> scored_row list action" where
  "scored_rows t =
     and_then (column ''RFM_Score'' (RFM_Score_column t)) (\<lambda>totals.
     and_then (column ''R_Score'' (R_Score_column t)) (\<lambda>R.
     and_then (column ''F_Score'' (F_Score_column t)) (\<lambda>F.
     and_then (column ''M_Score'' (M_Score_column t)) (\<lambda>M.
     returns (map (\<lambda>(row, R_i, F_i, M_i, n).
                \<lparr>customer_id = customer_id row, Recency = Recency row,
                 Frequency = Frequency row, Monetary = Monetary row,
                 R_Score = R_i, F_Score = F_i, M_Score = M_i, RFM_Score = n\<rparr>)
              (zip (rfm_rows t) (zip R (zip F (zip M totals)))))))))"

text \<open>Lines 118 to 138; the result is the address of the merged table.\<close>

definition rfm_metrics_st :: "addr \<Rightarrow> addr action" where
  "rfm_metrics_st df =
     and_then (read_orders ''order_purchase_timestamp'' df) (\<lambda>rows.
     let latest_date = Series_max (map order_purchase_timestamp rows) in
     and_then (read_orders ''customer_id'' df) (\<lambda>rows.
     and_then (new_frame (Recency_df ''order_purchase_timestamp''
        (groupby_agg customer_id order_purchase_timestamp
           (\<lambda>x. days (timestamp_sub latest_date (Series_max x))) rows))) (\<lambda>recency_df.
     and_then (update_frame recency_df (rename ''order_purchase_timestamp'' ''Recency'')) (\<lambda>_.
     and_then (read_orders ''customer_id'' df) (\<lambda>rows.
     and_then (new_frame (Frequency_df ''order_id'' (groupby_agg customer_id order_id nunique rows))) (\<lambda>frequency_df.
     and_then (update_frame frequency_df (rename ''order_id'' ''Frequency'')) (\<lambda>_.
     and_then (read_orders ''customer_id'' df) (\<lambda>rows.
     and_then (new_frame (Monetary_df ''total_spent'' (groupby_agg customer_id total_spent sum_list rows))) (\<lambda>monetary_df.
     and_then (update_frame monetary_df (rename ''total_spent'' ''Monetary'')) (\<lambda>_.
     and_then (read_recency ''customer_id'' recency_df) (\<lambda>left.
     and_then (read_frequency ''customer_id'' frequency_df) (\<lambda>right.
     and_then (new_frame (Merged_df (merge left right))) (\<lambda>rfm_df.
     and_then (read_merged ''customer_id'' rfm_df) (\<lambda>left.
     and_then (read_monetary ''customer_id'' monetary_df) (\<lambda>right.
     and_then (new_frame (Rfm_df
        \<lparr>rfm_rows = map (\<lambda>(c, (r, f), m). \<lparr>customer_id = c, Recency = r, Frequency = f, Monetary = m\<rparr>)
                      (merge left right),
         R_Score_column = None, F_Score_column = None, M_Score_column = None,
         RFM_Score_column = None, Segment_column = None\<rparr>)) (\<lambda>rfm_df.
     returns rfm_df))))))))))))))))"

text \<open>Lines 141 to 151, on the table at \<open>rfm_df\<close>.\<close>

definition rfm_scores_st :: "addr \<Rightarrow> unit action" where
  "rfm_scores_st rfm_df =
     and_then (read_rfm ''Recency'' rfm_df) (\<lambda>t.
     and_then (evaluate (qcut (map (\<lambda>row. map_option of_int (Recency row)) (rfm_rows t)) 5 [5, 4, 3, 2, 1] Drop)) (\<lambda>R.
     and_then (update_frame rfm_df (set_columns (\<lambda>t. t\<lparr>R_Score_column := Some R\<rparr>))) (\<lambda>_.
     let bins = [Some 0, Some 1, Some 2, Some 3, Some 4, Some \<infinity>];
         labels = [1, 2, 3, 4, 5] in
     and_then (read_rfm ''Frequency'' rfm_df) (\<lambda>t.
     and_then (evaluate (cut (map (\<lambda>row. Some (enat (Frequency row))) (rfm_rows t)) bins labels)) (\<lambda>F.
     and_then (update_frame rfm_df (set_columns (\<lambda>t. t\<lparr>F_Score_column := Some F\<rparr>))) (\<lambda>_.
     and_then (read_rfm ''Monetary'' rfm_df) (\<lambda>t.
     and_then (evaluate (qcut (map (\<lambda>row. Some (Monetary row)) (rfm_rows t)) 5 [1, 2, 3, 4, 5] Drop)) (\<lambda>M.
     and_then (update_frame rfm_df (set_columns (\<lambda>t. t\<lparr>M_Score_column := Some M\<rparr>))) (\<lambda>_.
     and_then (read_rfm ''R_Score'' rfm_df) (\<lambda>t.
     and_then (column ''R_Score'' (R_Score_column t)) (\<lambda>R.
     and_then (evaluate (astype_int R)) (\<lambda>r.
     and_then (read_rfm ''F_Score'' rfm_df) (\<lambda>t.
     and_then (column ''F_Score'' (F_Score_column t)) (\<lambda>F.
     and_then (evaluate (astype_int F)) (\<lambda>f.
     and_then (read_rfm ''M_Score'' rfm_df) (\<lambda>t.
     and_then (column ''M_Score'' (M_Score_column t)) (\<lambda>M.
     and_then (evaluate (astype_int M)) (\<lambda>m.
     update_frame rfm_df (set_columns (\<lambda>t. t\<lparr>RFM_Score_column :=
        Some (map (\<lambda>(r_i, f_i, m_i). r_i + f_i + m_i) (zip r (zip f m)))\<rparr>))))))))))))))))))))"

text \<open>Lines 116 to 168.\<close>

definition perform_rfm_analysis_st :: "addr \<Rightarrow> addr action" where
  "perform_rfm_analysis_st df =
     and_then (rfm_metrics_st df) (\<lambda>rfm_df.
     and_then (rfm_scores_st rfm_df) (\<lambda>_.
     and_then (read_rfm ''RFM_Score'' rfm_df) (\<lambda>t.
     and_then (scored_rows t) (\<lambda>rows.
     and_then (update_frame rfm_df (set_columns (\<lambda>t. t\<lparr>Segment_column := Some (map segment_customer rows)\<rparr>))) (\<lambda>_.
     returns rfm_df)))))"

text \<open>
  The table that a caller reads from the returned reference: the rows of \<^verbatim>\<open>rfm_df\<close> with
  all five assigned columns. The outcome of a run is its exception or that table.
\<close>

definition table_at :: "addr \<Rightarrow> store \<Rightarrow> segmented_row list option" where
  "table_at a s =
     (case (if a < length s then Some (s ! a) else None) of
        Some (Rfm_df t) \<Rightarrow>
          (case (R_Score_column t, F_Score_column t, M_Score_column t, RFM_Score_column t, Segment_column t) of
             (Some R, Some F, Some M, Some totals, Some segments) \<Rightarrow>
               Some (map (\<lambda>(row, R_i, F_i, M_i, n, g).
                      \<lparr>customer_id = customer_id row, Recency = Recency row,
                       Frequency = Frequency row, Monetary = Monetary row,
                       R_Score = R_i, F_Score = F_i, M_Score = M_i, RFM_Score = n, Segment = g\<rparr>)
                    (zip (rfm_rows t) (zip R (zip F (zip M (zip totals segments))))))
           | _ \<Rightarrow> None)
      | _ \<Rightarrow> None)"

definition outcome :: "(error + addr) \<times> store \<Rightarrow> (error + segmented_row list) option" where
  "outcome p = (case fst p of Inl e \<Rightarrow> Some (Inl e) | Inr a \<Rightarrow> map_option Inr (table_at a (snd p)))"


text \<open>
  The ranking of the five labels that the monotonicity property refers to:
  Lost Customers < At Risk < Potential Loyalists < Loyal Customers < Champions.
\<close>

definition segment_rank :: "string \<Rightarrow> nat" where
  "segment_rank label =
     (if label = ''Lost Customers'' then 0
      else if label = ''At Risk'' then 1
      else if label = ''Potential Loyalists'' then 2
      else if label = ''Loyal Customers'' then 3
      else if label = ''Champions'' then 4
      else 5)"

text \<open>A scored row with a given total, for evaluating the classifier at a concrete input.\<close>

definition row_with_score :: "int \<Rightarrow> scored_row" where
  "row_with_score n =
     \<lparr>customer_id = ''c'', Recency = Some 0, Frequency = 1, Monetary = 0,
      R_Score = None, F_Score = None, M_Score = None, RFM_Score = n\<rparr>"

text \<open>
  The row that lines 141 to 151 make of a metric row whose recency score is \<open>r\<close> and
  whose monetary score is \<open>m\<close>, when its frequency is at least 1.
\<close>

definition scored_of :: "rfm_row \<Rightarrow> int \<Rightarrow> int \<Rightarrow> scored_row" where
  "scored_of row r m =
     \<lparr>customer_id = customer_id row, Recency = Recency row,
      Frequency = Frequency row, Monetary = Monetary row,
      R_Score = Some r, F_Score = Some (int (min (Frequency row) 5)), M_Score = Some m,
      RFM_Score = r + int (min (Frequency row) 5) + m\<rparr>"

text \<open>
  An input on which the function returns a table, and the table: customer \<open>a\<close> has two
  rows of one order, customer \<open>b\<close> one row ten days and five hours later.
\<close>

definition example_orders :: "order list" where
  "example_orders =
     [\<lparr>customer_id = ''a'', order_id = ''o1'', order_purchase_timestamp = 0, total_spent = 10\<rparr>,
      \<lparr>customer_id = ''a'', order_id = ''o1'', order_purchase_timestamp = 0, total_spent = 15\<rparr>,
      \<lparr>customer_id = ''b'', order_id = ''o2'', order_purchase_timestamp = 882000000000000, total_spent = 5\<rparr>]"

definition example_table :: "segmented_row list" where
  "example_table =
     [\<lparr>customer_id = ''a'', Recency = Some 10, Frequency = 1, Monetary = 25,
       R_Score = Some 1, F_Score = Some 1, M_Score = Some 5, RFM_Score = 7,
       Segment = ''Potential Loyalists''\<rparr>,
      \<lparr>customer_id = ''b'', Recency = Some 0, Frequency = 1, Monetary = 5,
       R_Score = Some 5, F_Score = Some 1, M_Score = Some 1, RFM_Score = 7,
       Segment = ''Potential Loyalists''\<rparr>]"



text \<open>An input of two customers whose only purchases are one hour apart.\<close>

definition same_day_orders :: "order list" where
  "same_day_orders =
     [\<lparr>customer_id = ''a'', order_id = ''o1'', order_purchase_timestamp = 0, total_spent = 10\<rparr>,
      \<lparr>customer_id = ''b'', order_id = ''o2'', order_purchase_timestamp = 3600000000000, total_spent = 5\<rparr>]"

section \<open>Properties\<close>

lemma segment_rank_segment_customer:
  "segment_rank (segment_customer row) =
     (if RFM_Score row \<ge> 12 then 4 else if 9 \<le> RFM_Score row then 3
      else if 6 \<le> RFM_Score row then 2 else if 3 \<le> RFM_Score row then 1 else 0)"
  by (simp add: segment_customer_def segment_rank_def)

subsection \<open>Binning\<close>

lemma searchsorted_le: "searchsorted a v \<le> length a"
  by (simp add: searchsorted_def length_takeWhile_le)

lemma label_of_bin_Some:
  assumes "int (length labels) = int (length bins) - 1"
    and "label_of_bin bins labels il v = Some l"
  shows "l \<in> set labels"
proof -
  define i where "i = (if il \<and> v \<noteq> None \<and> [v] = take 1 bins then 1 else searchsorted bins v)"
  from assms(2) have na: "i \<noteq> length bins" "i \<noteq> 0" and l: "l = labels ! (i - 1)"
    by (auto simp: label_of_bin_def Let_def i_def split: if_splits)
  have "i \<le> length bins"
  proof (cases "il \<and> v \<noteq> None \<and> [v] = take 1 bins")
    case True
    then have "bins \<noteq> []" by auto
    then have "1 \<le> length bins" by (cases bins) simp_all
    with True show ?thesis by (simp add: i_def)
  next
    case False
    then show ?thesis by (auto simp: i_def searchsorted_le)
  qed
  with na assms(1) have "i - 1 < length labels" by linarith
  then show ?thesis by (simp add: l)
qed

lemma bins_to_cuts_Inr:
  assumes "bins_to_cuts x bins labels il dup = Inr res"
  shows "length res = length x \<and> list_all (\<lambda>v. v = None \<or> v \<in> Some ` set labels) res"
proof -
  from assms obtain bs where len: "int (length labels) = int (length bs) - 1"
    and res: "res = map (label_of_bin bs labels il) x"
    by (auto simp: bins_to_cuts_def Let_def split: if_splits)
  have "v = None \<or> v \<in> Some ` set labels" if "v \<in> set res" for v
  proof (cases v)
    case None
    then show ?thesis by simp
  next
    case (Some l)
    with that obtain u where "label_of_bin bs labels il u = Some l" by (auto simp: res)
    from label_of_bin_Some [OF len this] Some show ?thesis by simp
  qed
  then show ?thesis by (simp add: res list_all_iff)
qed

lemma astype_int_Inr: "astype_int x = Inr r \<Longrightarrow> x = map Some r"
  by (induction x arbitrary: r) (auto simp: astype_int_def dropna_def split: if_splits)


lemma unique_distinct: "distinct a \<Longrightarrow> unique a = a"
  by (simp add: unique_def distinct_remdups_id)

lemma label_of_bin_frequency:
  "label_of_bin [Some 0, Some 1, Some 2, Some 3, Some 4, Some \<infinity>] [1, 2, 3, 4, 5] False (Some (enat f)) =
     (if f = 0 then None else Some (int (min f 5)))"
proof -
  consider "f = 0" | "f = 1" | "f = 2" | "f = 3" | "f = 4" | "5 \<le> f" by linarith
  then show ?thesis
    by cases
      (simp_all add: label_of_bin_def searchsorted_def nan_less_def numeral_eq_enat
        zero_enat_def one_enat_def min_def)
qed

lemma cut_frequency:
  "cut (map (\<lambda>row. Some (enat (Frequency row))) rfm_df)
       [Some 0, Some 1, Some 2, Some 3, Some 4, Some \<infinity>] [1, 2, 3, 4, 5] =
     Inr (map (\<lambda>row. if Frequency row = 0 then None else Some (int (min (Frequency row) 5))) rfm_df)"
proof -
  let ?bins = "[Some (0::enat), Some 1, Some 2, Some 3, Some 4, Some \<infinity>]"
  have d: "distinct ?bins"
    by (simp add: numeral_eq_enat zero_enat_def one_enat_def)
  have m: "is_monotonic_increasing ?bins"
    by (simp add: is_monotonic_increasing_def dropna_def)
  have l: "map (label_of_bin ?bins [1, 2, 3, 4, 5] False) (map (\<lambda>row. Some (enat (Frequency row))) rfm_df) =
      map (\<lambda>row. if Frequency row = 0 then None else Some (int (min (Frequency row) 5))) rfm_df"
    by (simp only: map_map comp_def label_of_bin_frequency)
  have "cut (map (\<lambda>row. Some (enat (Frequency row))) rfm_df) ?bins [1, 2, 3, 4, 5] =
      Inr (map (label_of_bin ?bins [1, 2, 3, 4, 5] False) (map (\<lambda>row. Some (enat (Frequency row))) rfm_df))"
    unfolding cut_def bins_to_cuts_def Let_def unique_distinct [OF d] using m by simp
  then show ?thesis by (simp only: l)
qed

lemma qcut_Inr:
  assumes "qcut x q labels dup = Inr res"
  shows "length res = length x \<and> list_all (\<lambda>v. v = None \<or> v \<in> Some ` set labels) res"
  using assms bins_to_cuts_Inr unfolding qcut_def Let_def by blast

lemma scores_in_labels:
  assumes "qcut x q labels dup = Inr (map Some r)"
  shows "length r = length x \<and> set r \<subseteq> set labels"
  using qcut_Inr [OF assms] by (auto simp: list_all_iff)

lemma frequency_scores:
  assumes "map (\<lambda>row. if Frequency row = 0 then None else Some (int (min (Frequency row) 5))) rfm_df = map Some f"
  shows "list_all (\<lambda>row. Frequency row \<noteq> 0) rfm_df \<and> f = map (\<lambda>row. int (min (Frequency row) 5)) rfm_df"
  using assms
proof (induction rfm_df arbitrary: f)
  case Nil
  then show ?case by simp
next
  case (Cons row rows)
  then show ?case by (cases f) (auto split: if_splits)
qed

lemma rfm_scores_Inr:
  assumes "rfm_scores rfm_df = Inr scored"
  shows "\<exists>r m. length r = length rfm_df \<and> length m = length rfm_df \<and>
           set r \<subseteq> {1..5} \<and> set m \<subseteq> {1..5} \<and>
           list_all (\<lambda>row. Frequency row \<noteq> 0) rfm_df \<and>
           scored = map (\<lambda>(row, r_i, m_i). scored_of row r_i m_i) (zip rfm_df (zip r m))"
proof -
  let ?F = "map (\<lambda>row. if Frequency row = 0 then None else Some (int (min (Frequency row) 5))) rfm_df"
  from assms obtain R M r f m where
    R: "qcut (map (\<lambda>row. map_option of_int (Recency row)) rfm_df) 5 [5, 4, 3, 2, 1] Drop = Inr R"
    and M: "qcut (map (\<lambda>row. Some (Monetary row)) rfm_df) 5 [1, 2, 3, 4, 5] Drop = Inr M"
    and r: "astype_int R = Inr r" and f: "astype_int ?F = Inr f" and m: "astype_int M = Inr m"
    and scored: "scored = map (\<lambda>(row, (R_i, r_i), (F_i, f_i), (M_i, m_i)).
                    \<lparr>customer_id = customer_id row, Recency = Recency row,
                     Frequency = Frequency row, Monetary = Monetary row,
                     R_Score = R_i, F_Score = F_i, M_Score = M_i,
                     RFM_Score = r_i + f_i + m_i\<rparr>)
                 (zip rfm_df (zip (zip R r) (zip (zip ?F f) (zip M m))))"
    unfolding rfm_scores_def Let_def cut_frequency by (auto split: sum.splits)
  have R': "R = map Some r" and M': "M = map Some m" and F': "?F = map Some f"
    using r m f by (simp_all add: astype_int_Inr)
  from scores_in_labels [OF R [unfolded R']] have lr: "length r = length rfm_df" and sr: "set r \<subseteq> {1..5}"
    by auto
  from scores_in_labels [OF M [unfolded M']] have lm: "length m = length rfm_df" and sm: "set m \<subseteq> {1..5}"
    by auto
  from frequency_scores [OF F'] have fr: "list_all (\<lambda>row. Frequency row \<noteq> 0) rfm_df"
    and f': "f = map (\<lambda>row. int (min (Frequency row) 5)) rfm_df" by auto
  have lf: "length f = length rfm_df" by (simp add: f')
  have "scored = map (\<lambda>(row, r_i, m_i). scored_of row r_i m_i) (zip rfm_df (zip r m))"
    unfolding scored R' M' F'
    by (rule nth_equalityI) (simp_all add: lr lm lf scored_of_def f')
  with lr lm sr sm fr show ?thesis by blast
qed

subsection \<open>The metric table\<close>





subsection \<open>The rows of the result\<close>






subsection \<open>The segment classifier\<close>

text \<open>
  Claim C1. For every integer total the classifier returns the label of the threshold
  table: Champions from 12 on, Loyal Customers on [9, 12), Potential Loyalists on [6, 9),
  At Risk on [3, 6) and Lost Customers below 3. The five ranges cover the integers and do not
  overlap, so the function is total and the first matching range is the only one.
\<close>

theorem segment_customer_thresholds:
  "(12 \<le> RFM_Score row \<longrightarrow> segment_customer row = ''Champions'') \<and>
   (9 \<le> RFM_Score row \<and> RFM_Score row < 12 \<longrightarrow> segment_customer row = ''Loyal Customers'') \<and>
   (6 \<le> RFM_Score row \<and> RFM_Score row < 9 \<longrightarrow> segment_customer row = ''Potential Loyalists'') \<and>
   (3 \<le> RFM_Score row \<and> RFM_Score row < 6 \<longrightarrow> segment_customer row = ''At Risk'') \<and>
   (RFM_Score row < 3 \<longrightarrow> segment_customer row = ''Lost Customers'')"
  by (simp add: segment_customer_def)

theorem segment_customer_thresholds_witness:
  "segment_customer (row_with_score 12) = ''Champions'' \<and>
   segment_customer (row_with_score 11) = ''Loyal Customers'' \<and>
   segment_customer (row_with_score 9) = ''Loyal Customers'' \<and>
   segment_customer (row_with_score 8) = ''Potential Loyalists'' \<and>
   segment_customer (row_with_score 6) = ''Potential Loyalists'' \<and>
   segment_customer (row_with_score 5) = ''At Risk'' \<and>
   segment_customer (row_with_score 3) = ''At Risk'' \<and>
   segment_customer (row_with_score 2) = ''Lost Customers'' \<and>
   segment_customer (row_with_score (- 7)) = ''Lost Customers''"
  using segment_customer_thresholds [of "row_with_score 12"]
    segment_customer_thresholds [of "row_with_score 11"]
    segment_customer_thresholds [of "row_with_score 9"]
    segment_customer_thresholds [of "row_with_score 8"]
    segment_customer_thresholds [of "row_with_score 6"]
    segment_customer_thresholds [of "row_with_score 5"]
    segment_customer_thresholds [of "row_with_score 3"]
    segment_customer_thresholds [of "row_with_score 2"]
    segment_customer_thresholds [of "row_with_score (- 7)"]
  by (simp add: row_with_score_def)

text \<open>
  Claim C8. The segment depends on the total alone, and it is monotonic: of two scored rows,
  the one with the greater or equal total never gets the lower-ranked segment, in the order
  Lost Customers < At Risk < Potential Loyalists < Loyal Customers < Champions.
\<close>

theorem segment_customer_monotonic:
  "(RFM_Score a = RFM_Score b \<longrightarrow> segment_customer a = segment_customer b) \<and>
   (RFM_Score a \<le> RFM_Score b \<longrightarrow>
      segment_rank (segment_customer a) \<le> segment_rank (segment_customer b))"
  by (simp add: segment_rank_segment_customer) (simp add: segment_customer_def)

theorem segment_customer_monotonic_witness:
  "segment_customer (row_with_score 7) = segment_customer ((row_with_score 7)\<lparr>Frequency := 4\<rparr>) \<and>
   segment_rank (segment_customer (row_with_score 5)) \<le> segment_rank (segment_customer (row_with_score 9)) \<and>
   segment_rank (segment_customer (row_with_score 5)) = 1 \<and>
   segment_rank (segment_customer (row_with_score 9)) = 3"
  using segment_customer_monotonic [of "row_with_score 7" "(row_with_score 7)\<lparr>Frequency := 4\<rparr>"]
    segment_customer_monotonic [of "row_with_score 5" "row_with_score 9"]
  by (simp add: row_with_score_def segment_rank_segment_customer)

subsection \<open>The pipeline\<close>

lemma perform_rfm_analysis_example: "perform_rfm_analysis example_orders = Inr example_table"
  by code_simp













text \<open>
  Claim C3. Two customers whose latest purchases fall on the same day have the same recency.
  All six quantile edges are then equal, \<^verbatim>\<open>duplicates='drop'\<close> leaves one of them, and the
  five labels no longer fit: the scoring raises and the function returns no table.
\<close>

theorem same_recency_raises:
  "rfm_metrics same_day_orders =
     [\<lparr>customer_id = ''a'', Recency = Some 0, Frequency = 1, Monetary = 10\<rparr>,
      \<lparr>customer_id = ''b'', Recency = Some 0, Frequency = 1, Monetary = 5\<rparr>] \<and>
   rfm_scores (rfm_metrics same_day_orders) =
     Inl (ValueError ''Bin labels must be one fewer than the number of bin edges'') \<and>
   perform_rfm_analysis same_day_orders =
     Inl (ValueError ''Bin labels must be one fewer than the number of bin edges'')"
  by code_simp

lemma quantile_constant:
  assumes "x \<noteq> []" and "\<forall>v\<in>set x. v = c" and "0 \<le> q" and "q \<le> 1"
  shows "quantile x q = Some c"
proof -
  let ?n = "length x"
  have x: "x = replicate ?n c" using assms(2) by (simp add: replicate_length_same)
  have s: "sort x = replicate ?n c"
    by (subst x) (simp add: sorted_sort_id sorted_replicate)
  have "of_nat (?n - 1) * q \<le> (of_nat (?n - 1) :: rat)"
    using assms(4) by (simp add: mult_left_le)
  then have "\<lfloor>of_nat (?n - 1) * q\<rfloor> \<le> \<lfloor>(of_nat (?n - 1) :: rat)\<rfloor>" by (rule floor_mono)
  then have lo: "nat \<lfloor>of_nat (?n - 1) * q\<rfloor> \<le> ?n - 1" by simp
  from assms(1) have n: "0 < ?n" by simp
  with lo have lo': "nat \<lfloor>of_nat (?n - 1) * q\<rfloor> < ?n" by linarith
  have hi: "min (nat \<lfloor>of_nat (?n - 1) * q\<rfloor> + 1) (?n - 1) < ?n" using n by linarith
  show ?thesis
    using assms(1) lo' hi by (simp add: quantile_def Let_def s)
qed

lemma linspace01_5: "linspace01 5 = [0, 1 / 5, 2 / 5, 3 / 5, 4 / 5, 1]"
  by code_simp

lemma qcut_constant:
  assumes "dropna x \<noteq> []" and "\<forall>v\<in>set (dropna x). v = c" and "distinct labels" and "length labels = 5"
  shows "qcut x 5 labels Drop = Inl (ValueError ''Bin labels must be one fewer than the number of bin edges'')"
proof -
  have "map (quantile (dropna x)) (linspace01 5) = [Some c, Some c, Some c, Some c, Some c, Some c]"
    by (simp add: linspace01_5 quantile_constant [OF assms(1,2)])
  moreover have "unique [Some c, Some c, Some c, Some c, Some c, Some c] = [Some c]"
    by (simp add: unique_def)
  ultimately show ?thesis
    using assms(3,4) by (simp add: qcut_def bins_to_cuts_def Let_def linspace01_5)
qed

lemma qcut_Inl:
  assumes "qcut x q labels Drop = Inl e" and "distinct labels"
  shows "e = ValueError ''Bin labels must be one fewer than the number of bin edges''"
  using assms by (auto simp: qcut_def bins_to_cuts_def Let_def split: if_splits)

text \<open>
  The same holds of every metric table that is not empty and in which all customers have
  one recency, or all have one monetary value: lines 141 to 151 raise the \<^verbatim>\<open>ValueError\<close>
  of the label check.
\<close>

theorem degenerate_distribution_raises:
  assumes "rfm_df \<noteq> []"
    and "list_all (\<lambda>row. Recency row = Some d) rfm_df \<or> list_all (\<lambda>row. Monetary row = a) rfm_df"
  shows "rfm_scores rfm_df = Inl (ValueError ''Bin labels must be one fewer than the number of bin edges'')"
proof -
  let ?e = "ValueError ''Bin labels must be one fewer than the number of bin edges''"
  let ?R = "qcut (map (\<lambda>row. map_option of_int (Recency row)) rfm_df) 5 [5, 4, 3, 2, 1] Drop"
  let ?M = "qcut (map (\<lambda>row. Some (Monetary row)) rfm_df) 5 [1, 2, 3, 4, 5] Drop"
  have dm: "dropna (map (\<lambda>row. Some (Monetary row)) rfm_df) = map Monetary rfm_df"
    by (induction rfm_df) (simp_all add: dropna_def)
  from assms(2) show ?thesis
  proof
    assume r: "list_all (\<lambda>row. Recency row = Some d) rfm_df"
    then have e: "map (\<lambda>row. map_option of_int (Recency row)) rfm_df = map (\<lambda>row. Some (of_int d)) rfm_df"
      by (simp add: list_all_iff)
    have dr: "dropna (map (\<lambda>row. Some (of_int d :: rat)) rfm_df) = map (\<lambda>row. of_int d) rfm_df"
      by (induction rfm_df) (simp_all add: dropna_def)
    have "?R = Inl ?e"
      unfolding e using assms(1) by (intro qcut_constant [where c = "of_int d"]) (auto simp: dr)
    then show ?thesis by (simp add: rfm_scores_def)
  next
    assume m: "list_all (\<lambda>row. Monetary row = a) rfm_df"
    have M: "?M = Inl ?e"
      using assms(1) m by (intro qcut_constant [where c = a]) (auto simp: dm list_all_iff)
    show ?thesis
    proof (cases ?R)
      case (Inl e)
      with qcut_Inl [OF Inl] show ?thesis by (simp add: rfm_scores_def)
    next
      case (Inr R)
      then show ?thesis unfolding rfm_scores_def Let_def cut_frequency by (simp add: M)
    qed
  qed
qed

theorem degenerate_distribution_raises_witness:
  "rfm_metrics same_day_orders \<noteq> [] \<and>
   list_all (\<lambda>row. Recency row = Some 0) (rfm_metrics same_day_orders) \<and>
   rfm_scores (rfm_metrics same_day_orders) =
     Inl (ValueError ''Bin labels must be one fewer than the number of bin edges'')"
proof -
  have m: "rfm_metrics same_day_orders =
     [\<lparr>customer_id = ''a'', Recency = Some 0, Frequency = 1, Monetary = 10\<rparr>,
      \<lparr>customer_id = ''b'', Recency = Some 0, Frequency = 1, Monetary = 5\<rparr>]"
    by code_simp
  have n: "rfm_metrics same_day_orders \<noteq> []" and r: "list_all (\<lambda>row. Recency row = Some 0) (rfm_metrics same_day_orders)"
    by (simp_all add: m)
  from degenerate_distribution_raises [OF n, of 0 0] r n show ?thesis by simp
qed




subsection \<open>The function on DataFrame objects\<close>

lemma and_then_returns: "and_then (returns x) k s = k x s"
  by (simp add: and_then_def returns_def)

lemma and_then_raises: "and_then (raises e) k s = (Inl e, s)"
  by (simp add: and_then_def raises_def)

lemma and_then_evaluate: "and_then (evaluate r) k s = (case r of Inl e \<Rightarrow> (Inl e, s) | Inr x \<Rightarrow> k x s)"
  by (simp add: and_then_def evaluate_def split: sum.splits)

lemma and_then_new_frame: "and_then (new_frame f) k s = k (length s) (s @ [f])"
  by (simp add: and_then_def new_frame_def)

lemma and_then_update_frame:
  "and_then (update_frame a g) k s = k () (if a < length s then s[a := g (s ! a)] else s)"
  by (simp add: and_then_def update_frame_def)

lemma and_then_frame_at:
  "and_then (frame_at a) k s = k (if a < length s then Some (s ! a) else None) s"
  by (simp add: and_then_def frame_at_def)

lemma and_then_assoc: "and_then (and_then p k) h = and_then p (\<lambda>x. and_then (k x) h)"
  by (rule ext) (simp add: and_then_def split: prod.splits sum.splits)

lemmas run_simps = and_then_assoc and_then_returns and_then_raises and_then_evaluate and_then_new_frame
  and_then_update_frame and_then_frame_at read_orders_def read_recency_def read_frequency_def
  read_monetary_def read_merged_def read_rfm_def column_def scored_rows_def

lemma rfm_metrics_st_Orders:
  assumes "df < length s" and "s ! df = Orders rows"
  shows "rfm_metrics_st df s =
    (Inr (length s + 4),
     s @ [Recency_df ''Recency'' (groupby_agg customer_id order_purchase_timestamp
            (\<lambda>x. days (timestamp_sub (Series_max (map order_purchase_timestamp rows)) (Series_max x))) rows),
          Frequency_df ''Frequency'' (groupby_agg customer_id order_id nunique rows),
          Monetary_df ''Monetary'' (groupby_agg customer_id total_spent sum_list rows),
          Merged_df (merge (groupby_agg customer_id order_purchase_timestamp
            (\<lambda>x. days (timestamp_sub (Series_max (map order_purchase_timestamp rows)) (Series_max x))) rows)
            (groupby_agg customer_id order_id nunique rows)),
          Rfm_df \<lparr>rfm_rows = rfm_metrics rows,
            R_Score_column = None, F_Score_column = None, M_Score_column = None,
            RFM_Score_column = None, Segment_column = None\<rparr>])"
  using assms unfolding rfm_metrics_st_def rfm_metrics_def
  by (simp add: run_simps Let_def nth_append list_update_append returns_def)

lemma rfm_metrics_st_other:
  assumes "\<not> (df < length s \<and> (\<exists>rows. s ! df = Orders rows))"
  shows "rfm_metrics_st df s = (Inl (KeyError ''order_purchase_timestamp''), s)"
  using assms unfolding rfm_metrics_st_def
  by (cases "s ! df") (simp_all add: run_simps raises_def)


lemma astype_int_Some: "astype_int (map Some r) = Inr r"
  by (induction r) (simp_all add: astype_int_def dropna_def list_all_iff)

lemma rfm_scores_st_run:
  assumes "a < length s" and "s ! a = Rfm_df t"
  shows "fst (rfm_scores_st a s) = map_sum id (\<lambda>_. ()) (rfm_scores (rfm_rows t)) \<and>
         length (snd (rfm_scores_st a s)) = length s \<and>
         (\<forall>b. b \<noteq> a \<longrightarrow> snd (rfm_scores_st a s) ! b = s ! b)"
  using assms unfolding rfm_scores_st_def rfm_scores_def
  by (simp add: run_simps update_frame_def Let_def split: sum.splits)

lemma zip_map_Some_columns:
  assumes "length r = length rows" and "length f = length rows" and "length m = length rows"
  shows "map R_Score (map (\<lambda>(row, (R_i, r_i), (F_i, f_i), (M_i, m_i)).
                    \<lparr>customer_id = customer_id row, Recency = Recency row,
                     Frequency = Frequency row, Monetary = Monetary row,
                     R_Score = R_i, F_Score = F_i, M_Score = M_i,
                     RFM_Score = r_i + f_i + m_i\<rparr>)
                 (zip rows (zip (zip (map Some r) r) (zip (zip (map Some f) f) (zip (map Some m) m))))) = map Some r"
  by (rule nth_equalityI) (simp_all add: assms)

lemma rfm_scores_st_table:
  assumes "a < length s" and "s ! a = Rfm_df t" and "rfm_scores (rfm_rows t) = Inr scored"
  shows "snd (rfm_scores_st a s) ! a =
           Rfm_df (t\<lparr>R_Score_column := Some (map R_Score scored),
                       F_Score_column := Some (map F_Score scored),
                       M_Score_column := Some (map M_Score scored),
                       RFM_Score_column := Some (map RFM_Score scored)\<rparr>)"
proof -
  let ?rows = "rfm_rows t"
  from assms(3) obtain R F M r f m where
    R: "qcut (map (\<lambda>row. map_option of_int (Recency row)) ?rows) 5 [5, 4, 3, 2, 1] Drop = Inr R"
    and F: "cut (map (\<lambda>row. Some (enat (Frequency row))) ?rows)
              [Some 0, Some 1, Some 2, Some 3, Some 4, Some \<infinity>] [1, 2, 3, 4, 5] = Inr F"
    and M: "qcut (map (\<lambda>row. Some (Monetary row)) ?rows) 5 [1, 2, 3, 4, 5] Drop = Inr M"
    and r: "astype_int R = Inr r" and f: "astype_int F = Inr f" and m: "astype_int M = Inr m"
    and scored: "scored = map (\<lambda>(row, (R_i, r_i), (F_i, f_i), (M_i, m_i)).
                    \<lparr>customer_id = customer_id row, Recency = Recency row,
                     Frequency = Frequency row, Monetary = Monetary row,
                     R_Score = R_i, F_Score = F_i, M_Score = M_i,
                     RFM_Score = r_i + f_i + m_i\<rparr>)
                 (zip ?rows (zip (zip R r) (zip (zip F f) (zip M m))))"
    unfolding rfm_scores_def Let_def by (auto split: sum.splits)
  have R': "R = map Some r" and F': "F = map Some f" and M': "M = map Some m"
    using r f m by (simp_all add: astype_int_Inr)
  have lr: "length r = length ?rows" using qcut_Inr [OF R] by (simp add: R')
  have lm: "length m = length ?rows" using qcut_Inr [OF M] by (simp add: M')
  have lf: "length f = length ?rows"
    using F unfolding cut_frequency by (auto simp: F' dest: arg_cong [where f = length])
  have c: "map R_Score scored = R" "map F_Score scored = F" "map M_Score scored = M"
    "map RFM_Score scored = map (\<lambda>(r_i, f_i, m_i). r_i + f_i + m_i) (zip r (zip f m))"
    unfolding scored R' F' M'
    by (rule nth_equalityI; simp add: lr lf lm)+
  show ?thesis
    using assms(1,2) unfolding rfm_scores_st_def
    by (simp add: run_simps update_frame_def Let_def R F M r f m c)
qed

lemma rfm_scores_metric_columns:
  assumes "rfm_scores rfm_df = Inr scored"
  shows "map (\<lambda>(row, R_i, F_i, M_i, n).
                \<lparr>customer_id = customer_id row, Recency = Recency row,
                 Frequency = Frequency row, Monetary = Monetary row,
                 R_Score = R_i, F_Score = F_i, M_Score = M_i, RFM_Score = n\<rparr>)
              (zip rfm_df (zip (map R_Score scored) (zip (map F_Score scored)
                 (zip (map M_Score scored) (map RFM_Score scored))))) = scored"
proof -
  from rfm_scores_Inr [OF assms] obtain r m where
    l: "length r = length rfm_df" "length m = length rfm_df"
    and scored: "scored = map (\<lambda>(row, r_i, m_i). scored_of row r_i m_i) (zip rfm_df (zip r m))"
    by blast
  show ?thesis
    unfolding scored by (rule nth_equalityI) (simp_all add: l scored_of_def)
qed

lemma table_at_segmented:
  assumes "a < length s"
    and "s ! a = Rfm_df \<lparr>rfm_rows = rfm_df,
            R_Score_column = Some (map R_Score scored), F_Score_column = Some (map F_Score scored),
            M_Score_column = Some (map M_Score scored), RFM_Score_column = Some (map RFM_Score scored),
            Segment_column = Some (map segment_customer scored)\<rparr>"
    and "rfm_scores rfm_df = Inr scored"
  shows "table_at a s = Some (map apply_segment scored)"
proof -
  from rfm_scores_Inr [OF assms(3)] obtain r m where
    l: "length r = length rfm_df" "length m = length rfm_df"
    and scored: "scored = map (\<lambda>(row, r_i, m_i). scored_of row r_i m_i) (zip rfm_df (zip r m))"
    by blast
  have "map (\<lambda>(row, R_i, F_i, M_i, n, g).
                      \<lparr>customer_id = customer_id row, Recency = Recency row,
                       Frequency = Frequency row, Monetary = Monetary row,
                       R_Score = R_i, F_Score = F_i, M_Score = M_i, RFM_Score = n, Segment = g\<rparr>)
                    (zip rfm_df (zip (map R_Score scored) (zip (map F_Score scored)
                      (zip (map M_Score scored) (zip (map RFM_Score scored) (map segment_customer scored))))))
        = map apply_segment scored"
    unfolding scored by (rule nth_equalityI) (simp_all add: l scored_of_def apply_segment_def)
  then show ?thesis
    using assms(1,2) by (simp add: table_at_def)
qed

lemma perform_rfm_analysis_st_Orders:
  assumes "df < length s" and "s ! df = Orders rows"
  shows "outcome (perform_rfm_analysis_st df s) = Some (perform_rfm_analysis rows) \<and>
         length s \<le> length (snd (perform_rfm_analysis_st df s)) \<and>
         (\<forall>b<length s. snd (perform_rfm_analysis_st df s) ! b = s ! b) \<and>
         (\<forall>a. fst (perform_rfm_analysis_st df s) = Inr a \<longrightarrow>
              length s \<le> a \<and> a < length (snd (perform_rfm_analysis_st df s)))"
proof -
  let ?a = "length s + 4"
  let ?t = "\<lparr>rfm_rows = rfm_metrics rows,
            R_Score_column = None, F_Score_column = None, M_Score_column = None,
            RFM_Score_column = None, Segment_column = None\<rparr>"
  obtain s1 where m: "rfm_metrics_st df s = (Inr ?a, s1)" and l1: "length s1 = length s + 5"
    and a1: "s1 ! ?a = Rfm_df ?t" and k1: "\<forall>b<length s. s1 ! b = s ! b"
    using rfm_metrics_st_Orders [OF assms] by (simp add: nth_append)
  have a: "?a < length s1" by (simp add: l1)
  obtain r2 s2 where sc: "rfm_scores_st ?a s1 = (r2, s2)" by (cases "rfm_scores_st ?a s1")
  from rfm_scores_st_run [OF a a1] sc
  have r2: "r2 = map_sum id (\<lambda>_. ()) (rfm_scores (rfm_metrics rows))" and l2: "length s2 = length s1"
    and k2: "\<forall>b. b \<noteq> ?a \<longrightarrow> s2 ! b = s1 ! b"
    by simp_all
  show ?thesis
  proof (cases "rfm_scores (rfm_metrics rows)")
    case (Inl e)
    with r2 have "r2 = Inl e" by simp
    then have p: "perform_rfm_analysis_st df s = (Inl e, s2)"
      by (simp add: perform_rfm_analysis_st_def and_then_def m sc)
    from Inl have "perform_rfm_analysis rows = Inl e" by (simp add: perform_rfm_analysis_def)
    with p l1 l2 k1 k2 show ?thesis by (simp add: outcome_def)
  next
    case (Inr scored)
    with r2 have r2': "r2 = Inr ()" by simp
    from rfm_scores_st_table [OF a a1] Inr sc
    have a2: "s2 ! ?a = Rfm_df \<lparr>rfm_rows = rfm_metrics rows,
            R_Score_column = Some (map R_Score scored), F_Score_column = Some (map F_Score scored),
            M_Score_column = Some (map M_Score scored), RFM_Score_column = Some (map RFM_Score scored),
            Segment_column = None\<rparr>"
      by simp
    let ?f = "Rfm_df \<lparr>rfm_rows = rfm_metrics rows,
            R_Score_column = Some (map R_Score scored), F_Score_column = Some (map F_Score scored),
            M_Score_column = Some (map M_Score scored), RFM_Score_column = Some (map RFM_Score scored),
            Segment_column = Some (map segment_customer scored)\<rparr>"
    have p: "perform_rfm_analysis_st df s = (Inr ?a, s2[?a := ?f])"
      unfolding perform_rfm_analysis_st_def
      using a l2 a2
      by (simp add: and_then_def m sc r2' run_simps returns_def update_frame_def frame_at_def
          rfm_scores_metric_columns [OF Inr])
    have "table_at ?a (s2[?a := ?f]) = Some (map apply_segment scored)"
      by (rule table_at_segmented [OF _ _ Inr]) (simp_all add: l2 a)
    moreover from Inr have "perform_rfm_analysis rows = Inr (map apply_segment scored)"
      by (simp add: perform_rfm_analysis_def)
    ultimately show ?thesis
      using p l1 l2 k1 k2 by (simp add: outcome_def)
  qed
qed

lemma perform_rfm_analysis_st_other:
  assumes "\<not> (df < length s \<and> (\<exists>rows. s ! df = Orders rows))"
  shows "perform_rfm_analysis_st df s = (Inl (KeyError ''order_purchase_timestamp''), s)"
  by (simp add: perform_rfm_analysis_st_def and_then_def rfm_metrics_st_other [OF assms])

lemma table_at_cong: "length s \<le> length s' \<Longrightarrow> a < length s \<Longrightarrow> s' ! a = s ! a \<Longrightarrow> table_at a s' = table_at a s"
  by (simp add: table_at_def)

text \<open>
  Claim C10. A call leaves its input as it was: the object behind \<open>df\<close>, and every other
  object that existed before the call, is the same afterwards, whether the call returns or
  raises. The table it returns is an object that did not exist before.
\<close>

theorem input_table_unchanged:
  assumes "perform_rfm_analysis_st df s = (r, s')" and "df < length s"
  shows "s' ! df = s ! df \<and> take (length s) s' = s \<and>
         (\<forall>a. r = Inr a \<longrightarrow> length s \<le> a \<and> a < length s')"
proof (cases "\<exists>rows. s ! df = Orders rows")
  case True
  then obtain rows where "s ! df = Orders rows" ..
  from perform_rfm_analysis_st_Orders [OF assms(2) this] assms(1)
  have l: "length s \<le> length s'" and k: "\<forall>b<length s. s' ! b = s ! b"
    and a: "\<forall>a. r = Inr a \<longrightarrow> length s \<le> a \<and> a < length s'"
    by simp_all
  from l k have "take (length s) s' = s"
    by (intro nth_equalityI) simp_all
  with k a assms(2) show ?thesis by simp
next
  case False
  then have "perform_rfm_analysis_st df s = (Inl (KeyError ''order_purchase_timestamp''), s)"
    by (intro perform_rfm_analysis_st_other) simp
  with assms(1) show ?thesis by auto
qed

theorem input_table_unchanged_witness:
  "fst (perform_rfm_analysis_st 0 [Orders example_orders]) = Inr 5 \<and>
   length (snd (perform_rfm_analysis_st 0 [Orders example_orders])) = 6 \<and>
   snd (perform_rfm_analysis_st 0 [Orders example_orders]) ! 0 = Orders example_orders \<and>
   take 1 (snd (perform_rfm_analysis_st 0 [Orders example_orders])) = [Orders example_orders] \<and>
   table_at 5 (snd (perform_rfm_analysis_st 0 [Orders example_orders])) = Some example_table"
proof -
  let ?s = "[Orders example_orders]"
  let ?p = "perform_rfm_analysis_st 0 ?s"
  have a: "fst ?p = Inr 5" and len: "length (snd ?p) = 6"
    by (code_simp)+
  have run: "?p = (Inr 5, snd ?p)" by (simp add: prod_eq_iff a)
  have "outcome ?p = Some (Inr example_table)"
    using perform_rfm_analysis_st_Orders [of 0 ?s example_orders]
    by (simp add: perform_rfm_analysis_example)
  then have t: "table_at 5 (snd ?p) = Some example_table"
    by (simp add: outcome_def a)
  have "snd ?p ! 0 = ?s ! 0 \<and> take (length ?s) (snd ?p) = ?s"
    using input_table_unchanged [OF run] by simp
  with a len t show ?thesis by simp
qed

text \<open>
  Claim C9. Two calls in a row on the same input, the second in the store the first has
  left, have the same outcome: the same exception, or tables with the same rows, columns
  and values. The table of the first call is still the same after the second.
\<close>

theorem repeated_run_same_table:
  assumes "perform_rfm_analysis_st df s = (r1, s1)" and "perform_rfm_analysis_st df s1 = (r2, s2)"
  shows "outcome (r1, s1) = outcome (r2, s2) \<and> outcome (r1, s2) = outcome (r1, s1) \<and>
         outcome (r1, s1) \<noteq> None"
proof (cases "df < length s \<and> (\<exists>rows. s ! df = Orders rows)")
  case True
  then obtain rows where df: "df < length s" and rows: "s ! df = Orders rows" by blast
  from perform_rfm_analysis_st_Orders [OF df rows] assms(1)
  have o1: "outcome (r1, s1) = Some (perform_rfm_analysis rows)" and l1: "length s \<le> length s1"
    and k1: "\<forall>b<length s. s1 ! b = s ! b" and a1: "\<forall>a. r1 = Inr a \<longrightarrow> length s \<le> a \<and> a < length s1"
    by simp_all
  from df l1 k1 rows have df1: "df < length s1" and rows1: "s1 ! df = Orders rows" by simp_all
  from perform_rfm_analysis_st_Orders [OF df1 rows1] assms(2)
  have o2: "outcome (r2, s2) = Some (perform_rfm_analysis rows)" and l2: "length s1 \<le> length s2"
    and k2: "\<forall>b<length s1. s2 ! b = s1 ! b"
    by simp_all
  have "outcome (r1, s2) = outcome (r1, s1)"
  proof (cases r1)
    case (Inl e)
    then show ?thesis by (simp add: outcome_def)
  next
    case (Inr a)
    with a1 have "a < length s1" by simp
    with k2 l2 have "table_at a s2 = table_at a s1" by (intro table_at_cong) simp_all
    with Inr show ?thesis by (simp add: outcome_def)
  qed
  with o1 o2 show ?thesis by simp
next
  case False
  from perform_rfm_analysis_st_other [OF False] assms(1)
  have 1: "r1 = Inl (KeyError ''order_purchase_timestamp'')" "s1 = s" by simp_all
  with perform_rfm_analysis_st_other [OF False] assms(2)
  have "r2 = Inl (KeyError ''order_purchase_timestamp'')" by simp
  with 1 show ?thesis by (simp add: outcome_def)
qed

theorem repeated_run_same_table_witness:
  "outcome (perform_rfm_analysis_st 0 [Orders example_orders]) = Some (Inr example_table) \<and>
   outcome (perform_rfm_analysis_st 0 (snd (perform_rfm_analysis_st 0 [Orders example_orders]))) =
     Some (Inr example_table) \<and>
   fst (perform_rfm_analysis_st 0 [Orders example_orders]) = Inr 5 \<and>
   fst (perform_rfm_analysis_st 0 (snd (perform_rfm_analysis_st 0 [Orders example_orders]))) = Inr 10"
proof -
  let ?s = "[Orders example_orders]"
  let ?p = "perform_rfm_analysis_st 0 ?s"
  let ?q = "perform_rfm_analysis_st 0 (snd ?p)"
  have a: "fst ?p = Inr 5" "fst ?q = Inr 10"
    by (code_simp)+
  have o: "outcome ?p = Some (Inr example_table)"
    using perform_rfm_analysis_st_Orders [of 0 ?s example_orders]
    by (simp add: perform_rfm_analysis_example)
  have "outcome (fst ?p, snd ?p) = outcome (fst ?q, snd ?q)"
    using repeated_run_same_table [of 0 ?s "fst ?p" "snd ?p" "fst ?q" "snd ?q"] by simp
  then have "outcome ?q = outcome ?p" by simp
  with o a show ?thesis by simp
qed

end
